theory Spec2Isabelle
  imports Main "HOL-Library.Sublist"
begin

section \<open>JavaScript string primitives used by the client\<close>

text \<open>
  A JavaScript string is a list of UTF-16 code units, each a number (below 65536 in every
  string the runtime builds). \<open>js\<close> turns the text of a string literal of the source
  into its code units. Every primitive below is the JavaScript built-in of the same name,
  restricted to the argument shapes the client passes to it.
\<close>

type_synonym jsstring = "nat list"

definition js :: "string \<Rightarrow> jsstring" where
  "js s = map of_char s"

definition LF :: nat where
  "LF = 0x0A"

definition CR :: nat where
  "CR = 0x0D"

definition BEL :: nat where
  "BEL = 0x07"

definition SP :: nat where
  "SP = 0x20"

text \<open>\<open>s.indexOf(sub)\<close>: the position of the first occurrence of \<open>sub\<close>, or \<open>-1\<close>.\<close>

fun indexOf :: "'a list \<Rightarrow> 'a list \<Rightarrow> int" where
  "indexOf [] sub = (if sub = [] then 0 else -1)"
| "indexOf (c # cs) sub =
     (if prefix sub (c # cs) then 0
      else (let r = indexOf cs sub in if r = -1 then -1 else r + 1))"


definition substring_to :: "'a list \<Rightarrow> nat \<Rightarrow> 'a list" where
  "substring_to s b = take b s"

text \<open>\<open>s.split(sep)\<close> for a separator of one code unit: never the empty array.\<close>

fun split :: "'a list \<Rightarrow> 'a \<Rightarrow> 'a list list" where
  "split [] sep = [[]]"
| "split (c # cs) sep =
     (if c = sep then [] # split cs sep
      else (case split cs sep of
              [] \<Rightarrow> [[c]]
            | t # ts \<Rightarrow> (c # t) # ts))"

text \<open>\<open>parts.join(sep)\<close>.\<close>

fun join :: "'a list list \<Rightarrow> 'a list \<Rightarrow> 'a list" where
  "join [] sep = []"
| "join [t] sep = t"
| "join (t # u # ts) sep = t @ sep @ join (u # ts) sep"

text \<open>\<open>s.replace(/c/g, d)\<close> for a single code unit \<open>c\<close> and replacement string \<open>d\<close>.\<close>

definition replace_all :: "'a list \<Rightarrow> 'a \<Rightarrow> 'a list \<Rightarrow> 'a list" where
  "replace_all s c d = concat (map (\<lambda>x. if x = c then d else [x]) s)"

text \<open>
  \<open>s.toLowerCase()\<close> and \<open>buffer.toString()\<close> are built-ins of the runtime, not code
  of the client. The methods that call them take them as the parameters \<open>toLowerCase\<close>
  and \<open>toString\<close>, so that what is proved holds for the runtime's own functions; what a
  statement needs to know about them is a hypothesis of that statement.
\<close>

type_synonym lowering = "jsstring \<Rightarrow> jsstring"


text \<open>\<open>arr[i]\<close> on an array: \<open>undefined\<close> (here \<open>None\<close>) out of range.\<close>

definition at_index :: "'a list \<Rightarrow> nat \<Rightarrow> 'a option" where
  "at_index xs i = (if i < length xs then Some (xs ! i) else None)"

text \<open>Truthiness of a possibly missing string argument.\<close>

definition truthy :: "jsstring option \<Rightarrow> bool" where
  "truthy v = (case v of None \<Rightarrow> False | Some s \<Rightarrow> s \<noteq> [])"


section \<open>The client's data\<close>

datatype connect_state = Disconnected | Connecting | Reconnecting | Connected

datatype error = Error string | TypeError string

text \<open>
  How a call ends: it returns a value or throws. Every method below yields this together
  with the client as the call leaves it, so what a throwing call has changed stays visible.
\<close>

datatype 'a completion = Returns 'a | Throws error

text \<open>
  A promise is a cell of the promise store; the closure stored in a channel's
  \<open>joinCallback\<close> or \<open>partCallback\<close> captures the promise it settles, the channel and the
  property it clears.
\<close>

datatype promise = Pending | Fulfilled | Rejected error

datatype callback_prop = JoinCallbackProp | PartCallbackProp

datatype callback = Callback nat nat callback_prop

text \<open>
  The values the modelled methods return: a user or channel object (by address), a property
  found on \<open>Object.prototype\<close>, a promise (by address) or a callback closure.
\<close>

datatype jsval =
    UserRef nat
  | ChannelRef nat
  | Inherited jsstring
  | PromiseRef nat
  | FunctionRef callback

datatype event =
    Ev_connected
  | Ev_disconnected "error option"
  | Ev_state connect_state "error option"
  | Ev_error error

datatype net_op =
    SocketCreated
  | SocketConnect nat jsstring
  | SocketWrite jsstring
  | SocketDestroy

datatype timer = ReconnectTimer | IgnoreCloseTimer

text \<open>
  Class \<open>BanchoUser\<close> is not among the sources; a user object is represented by the name
  its constructor receives.
\<close>

record BanchoUser =
  ircUsername :: jsstring

text \<open>
  The fields of \<open>BanchoChannel\<close> that its constructor sets and \<open>_joinOrPart\<close> reads.
  \<open>multiplayer\<close> tells which of the two classes \<open>getChannel\<close> instantiated.
\<close>

record BanchoChannel =
  name :: jsstring
  topic :: jsstring
  joined :: bool
  joinCallback :: "callback option"
  partCallback :: "callback option"
  listenersInitialized :: bool
  multiplayer :: bool

text \<open>
  The fields of \<open>BanchoClient\<close>, followed by the runtime the client acts on: the object
  stores behind \<open>new\<close>, the log of socket operations, the log of emitted events and the
  pending timers. \<open>client\<close> is the socket held in \<open>this.client\<close>, \<open>osuApi\<close> the API key of
  the Nodesu client when there is one.
\<close>

record BanchoClient =
  username :: jsstring
  password :: jsstring
  host :: jsstring
  port :: nat
  client :: "nat option"
  connectState :: connect_state
  reconnect :: bool
  reconnectTimeout :: bool
  connectCallback :: "nat option"
  osuApi :: "jsstring option"
  users :: "jsstring \<rightharpoonup> nat"
  channels :: "jsstring \<rightharpoonup> nat"
  ignoreClose :: bool
  userObjs :: "BanchoUser list"
  channelObjs :: "BanchoChannel list"
  promises :: "promise list"
  socketCount :: nat
  transport :: "(nat \<times> net_op) list"
  emitted :: "event list"
  timers :: "timer list"

definition ignoredSplits :: "jsstring list" where
  "ignoredSplits =
     map js [''312'', ''333'', ''366'', ''372'', ''375'', ''376'', ''QUIT'']"

section \<open>Construction\<close>

text \<open>
  The constructor. A missing argument is \<open>None\<close>. The throw comes before any field is
  assigned, so there is no client in that case.
\<close>

definition new_BanchoClient ::
  "jsstring option \<Rightarrow> jsstring option \<Rightarrow> jsstring option \<Rightarrow> nat option
   \<Rightarrow> jsstring option \<Rightarrow> error + BanchoClient" where
  "new_BanchoClient username0 password0 host0 port0 apiKey =
     (if \<not> truthy username0 \<or> \<not> truthy password0
      then Inl (Error ''You gotta gimme an username and a password to connect to Bancho dumbass'')
      else Inr \<lparr>
        username = (case username0 of Some u \<Rightarrow> u | None \<Rightarrow> []),
        password = (case password0 of Some p \<Rightarrow> p | None \<Rightarrow> []),
        host = (case host0 of Some h \<Rightarrow> h | None \<Rightarrow> js ''irc.ppy.sh''),
        port = (case port0 of Some n \<Rightarrow> n | None \<Rightarrow> 6667),
        client = None,
        connectState = Disconnected,
        reconnect = True,
        reconnectTimeout = False,
        connectCallback = None,
        osuApi = (if truthy apiKey then apiKey else None),
        users = Map.empty,
        channels = Map.empty,
        ignoreClose = False,
        userObjs = [],
        channelObjs = [],
        promises = [],
        socketCount = 0,
        transport = [],
        emitted = [],
        timers = [] \<rparr>)"

section \<open>Connection state and raw sends\<close>

text \<open>
  \<open>this.emit(...)\<close>: the event goes to the log; what the application's listeners do with
  it is not the client's.
\<close>

definition emit :: "event \<Rightarrow> BanchoClient \<Rightarrow> BanchoClient" where
  "emit e c = c\<lparr>emitted := emitted c @ [e]\<rparr>"

definition isConnected :: "BanchoClient \<Rightarrow> bool" where
  "isConnected c = (connectState c = Connected)"

definition isDisconnected :: "BanchoClient \<Rightarrow> bool" where
  "isDisconnected c = (connectState c = Disconnected)"

definition getConnectState :: "BanchoClient \<Rightarrow> connect_state" where
  "getConnectState c = connectState c"

text \<open>
  \<open>this.client.write(d)\<close>, \<open>this.client.destroy()\<close> and
  \<open>this.client.connect(this.port, this.host, ...)\<close>: a \<open>TypeError\<close> when \<open>this.client\<close>
  is still \<open>null\<close>, otherwise one more entry in the socket log.
\<close>

definition client_op :: "string \<Rightarrow> net_op \<Rightarrow> BanchoClient \<Rightarrow> unit completion \<times> BanchoClient" where
  "client_op method op c =
     (case client c of
        None \<Rightarrow>
          (Throws (TypeError (''Cannot read properties of null (reading '' @ method @ '')'')), c)
      | Some k \<Rightarrow> (Returns (), c\<lparr>transport := transport c @ [(k, op)]\<rparr>))"

definition client_write :: "jsstring \<Rightarrow> BanchoClient \<Rightarrow> unit completion \<times> BanchoClient" where
  "client_write d c = client_op ''write'' (SocketWrite d) c"

definition client_destroy :: "BanchoClient \<Rightarrow> unit completion \<times> BanchoClient" where
  "client_destroy c = client_op ''destroy'' SocketDestroy c"

definition client_connect :: "BanchoClient \<Rightarrow> unit completion \<times> BanchoClient" where
  "client_connect c = client_op ''connect'' (SocketConnect (port c) (host c)) c"

text \<open>\<open>send(data, throwIfDisconnected)\<close>.\<close>

definition send :: "jsstring \<Rightarrow> bool \<Rightarrow> BanchoClient \<Rightarrow> unit completion \<times> BanchoClient" where
  "send data throwIfDisconnected c =
     (if connectState c = Connected \<or> connectState c = Connecting
      then client_write (data @ [CR, LF]) c
      else if throwIfDisconnected then (Throws (Error ''Currently disconnected!''), c)
      else (Returns (), c))"

text \<open>
  \<open>updateState(newConnectState, err)\<close>. The argument may be any value: \<open>None\<close> stands
  for one that is none of the four state symbols.
\<close>

definition updateState ::
  "connect_state option \<Rightarrow> error option \<Rightarrow> BanchoClient \<Rightarrow> unit completion \<times> BanchoClient" where
  "updateState newConnectState err c =
     (if newConnectState = Some (connectState c) then (Returns (), c)
      else (case newConnectState of
              None \<Rightarrow> (Throws (Error ''Invalid connect state!''), c)
            | Some s \<Rightarrow>
                (let c1 = c\<lparr>connectState := s\<rparr>;
                     c2 = (if isConnected c1 then emit Ev_connected c1 else c1);
                     c3 = (if isDisconnected c2 then emit (Ev_disconnected err) c2 else c2)
                 in (Returns (), emit (Ev_state (connectState c3) err) c3))))"

text \<open>\<open>setTimeout\<close> and \<open>clearTimeout\<close> on the list of pending timers.\<close>

definition setTimeout :: "timer \<Rightarrow> BanchoClient \<Rightarrow> BanchoClient" where
  "setTimeout t c = c\<lparr>timers := timers c @ [t]\<rparr>"

definition clearTimeout :: "timer \<Rightarrow> BanchoClient \<Rightarrow> BanchoClient" where
  "clearTimeout t c = c\<lparr>timers := remove1 t (timers c)\<rparr>"

text \<open>\<open>onClose(err)\<close>.\<close>

definition onClose :: "error \<Rightarrow> BanchoClient \<Rightarrow> unit completion \<times> BanchoClient" where
  "onClose err c =
     (if connectState c = Disconnected then (Returns (), c)
      else if \<not> reconnect c then updateState (Some Disconnected) (Some err) c
      else (case updateState (Some Reconnecting) (Some err) c of
              (Throws e, c1) \<Rightarrow> (Throws e, c1)
            | (Returns u, c1) \<Rightarrow>
                (let c2 = (if reconnectTimeout c1 then clearTimeout ReconnectTimer c1 else c1)
                 in (Returns (), setTimeout ReconnectTimer (c2\<lparr>reconnectTimeout := True\<rparr>)))))"

section \<open>Routing of decoded lines\<close>

text \<open>
  \<open>IrcCommands\<close> is not among the sources: it is a parameter, a table from verb to
  handler. A handler receives the client, \<open>splits[1]\<close> and \<open>splits\<close>. A property that
  is present but has no \<open>handleCommand\<close> is a handler that throws a \<open>TypeError\<close>.
\<close>

type_synonym handler =
  "BanchoClient \<Rightarrow> jsstring option \<Rightarrow> jsstring list \<Rightarrow> unit completion \<times> BanchoClient"

type_synonym registry = "jsstring \<Rightarrow> handler option"

text \<open>A property key: \<open>undefined\<close> is looked up as the string \<open>undefined\<close>.\<close>

definition prop_key :: "jsstring option \<Rightarrow> jsstring" where
  "prop_key v = (case v of None \<Rightarrow> js ''undefined'' | Some k \<Rightarrow> k)"

text \<open>\<open>handleIrcCommand(command)\<close>.\<close>

definition handleIrcCommand ::
  "registry \<Rightarrow> jsstring \<Rightarrow> BanchoClient \<Rightarrow> unit completion \<times> BanchoClient" where
  "handleIrcCommand IrcCommands command c =
     (let splits = split command SP
      in if (case at_index splits 1 of None \<Rightarrow> False | Some v \<Rightarrow> v \<in> set ignoredSplits)
         then (Returns (), c)
         else if at_index splits 0 = Some (js ''PING'')
         then send (js ''PONG '' @ join (tl splits) [SP]) True c
         else (case IrcCommands (prop_key (at_index splits 1)) of
                 Some h \<Rightarrow> h c (at_index splits 1) splits
               | None \<Rightarrow> (Returns (), c)))"

section \<open>The framer\<close>





section \<open>The identity cache\<close>

text \<open>
  \<open>this.users\<close> and \<open>this.channels\<close> are plain objects, so \<open>obj[k]\<close> finds an own
  property first and a property of \<open>Object.prototype\<close> otherwise; all of those are
  functions or objects, hence truthy.
\<close>

definition objectPrototypeProps :: "jsstring list" where
  "objectPrototypeProps = map js
     [''constructor'', ''__defineGetter__'', ''__defineSetter__'', ''hasOwnProperty'',
      ''__lookupGetter__'', ''__lookupSetter__'', ''isPrototypeOf'', ''propertyIsEnumerable'',
      ''toString'', ''valueOf'', ''__proto__'', ''toLocaleString'']"

definition prop_get ::
  "(jsstring \<rightharpoonup> nat) \<Rightarrow> (nat \<Rightarrow> jsval) \<Rightarrow> jsstring \<Rightarrow> jsval option" where
  "prop_get obj mk k =
     (case obj k of
        Some r \<Rightarrow> Some (mk r)
      | None \<Rightarrow> if k \<in> set objectPrototypeProps then Some (Inherited k) else None)"

text \<open>The first line of \<open>getUser\<close>: the name a new user object is given.\<close>

definition clip_username :: "jsstring \<Rightarrow> jsstring" where
  "clip_username username0 =
     substring_to
       (case split (replace_all username0 SP (js ''_'')) LF of [] \<Rightarrow> [] | t # ts \<Rightarrow> t) 28"

text \<open>
  \<open>getUser(username)\<close>: the value returned and the client afterwards. The key is
  \<open>username.toLowerCase()\<close>, taken after the clipping.
\<close>

definition getUser :: "lowering \<Rightarrow> jsstring \<Rightarrow> BanchoClient \<Rightarrow> jsval \<times> BanchoClient" where
  "getUser toLowerCase username0 c =
     (let username1 = clip_username username0
      in case prop_get (users c) UserRef (toLowerCase username1) of
           Some v \<Rightarrow> (v, c)
         | None \<Rightarrow>
             (let r = length (userObjs c)
              in (UserRef r,
                  c\<lparr>userObjs := userObjs c @ [\<lparr>ircUsername = username1\<rparr>],
                    users := (users c)(toLowerCase username1 \<mapsto> r)\<rparr>)))"

text \<open>
  \<open>new BanchoChannel(this, name)\<close> and \<open>new BanchoMultiplayerChannel(this, name)\<close>; the
  second class is not among the sources and is represented by the fields of its base class.
\<close>

definition new_BanchoChannel :: "bool \<Rightarrow> jsstring \<Rightarrow> BanchoChannel" where
  "new_BanchoChannel mp channelName =
     \<lparr>name = channelName, topic = [], joined = False, joinCallback = None,
      partCallback = None, listenersInitialized = False, multiplayer = mp\<rparr>"

text \<open>
  \<open>getChannel(channelName)\<close>. The third test of the guard searches for the control
  character 0x07.
\<close>

definition getChannel :: "jsstring \<Rightarrow> BanchoClient \<Rightarrow> jsval completion \<times> BanchoClient" where
  "getChannel channelName c =
     (if indexOf channelName (js ''#'') \<noteq> 0 \<or> indexOf channelName (js '','') \<noteq> -1
         \<or> indexOf channelName [BEL] \<noteq> -1
      then (Throws (Error ''Invalid channel name!''), c)
      else (case prop_get (channels c) ChannelRef channelName of
              Some v \<Rightarrow> (Returns v, c)
            | None \<Rightarrow>
                (let r = length (channelObjs c);
                     mp = (indexOf channelName (js ''#mp_'') = 0 \<and> osuApi c \<noteq> None)
                 in (Returns (ChannelRef r),
                     c\<lparr>channelObjs := channelObjs c @ [new_BanchoChannel mp channelName],
                       channels := (channels c)(channelName \<mapsto> r)\<rparr>))))"

section \<open>Connecting and disconnecting\<close>

definition initSocket :: "BanchoClient \<Rightarrow> BanchoClient" where
  "initSocket c =
     c\<lparr>client := Some (socketCount c),
       socketCount := socketCount c + 1,
       transport := transport c @ [(socketCount c, SocketCreated)]\<rparr>"

text \<open>Settling a promise: only a pending one changes.\<close>

definition settle :: "nat \<Rightarrow> promise \<Rightarrow> BanchoClient \<Rightarrow> BanchoClient" where
  "settle p v c =
     (if p < length (promises c) \<and> promises c ! p = Pending
      then c\<lparr>promises := (promises c)[p := v]\<rparr> else c)"

text \<open>
  \<open>connect()\<close>: the promise returned and the client afterwards. The executor runs at
  once; an error thrown inside it rejects the promise.
\<close>

definition connect :: "BanchoClient \<Rightarrow> jsval \<times> BanchoClient" where
  "connect c =
     (let p = length (promises c)
      in if connectState c = Connected \<or> connectState c = Connecting
         then (PromiseRef p,
               c\<lparr>promises := promises c @ [Rejected (Error ''Already connected/connecting'')]\<rparr>)
         else (let c1 = c\<lparr>promises := promises c @ [Pending], connectCallback := Some p\<rparr>
               in case updateState (Some Connecting) None c1 of
                    (Throws e, c2) \<Rightarrow> (PromiseRef p, settle p (Rejected e) c2)
                  | (Returns u, c2) \<Rightarrow>
                      (case client_connect (initSocket (c2\<lparr>reconnect := True\<rparr>)) of
                         (Throws e, c3) \<Rightarrow> (PromiseRef p, settle p (Rejected e) c3)
                       | (Returns u, c3) \<Rightarrow> (PromiseRef p, c3))))"

text \<open>\<open>disconnect()\<close>.\<close>

definition disconnect :: "BanchoClient \<Rightarrow> unit completion \<times> BanchoClient" where
  "disconnect c =
     (if connectState c = Disconnected then (Returns (), c)
      else (case (if isConnected c then send (js ''QUIT'') True c
                  else if connectState c = Connecting then client_destroy c
                  else (Returns (), c)) of
              (Throws e, c1) \<Rightarrow> (Throws e, c1)
            | (Returns u, c1) \<Rightarrow>
                (let c2 = (if reconnectTimeout c1
                           then (clearTimeout ReconnectTimer c1)\<lparr>reconnectTimeout := False\<rparr>
                           else c1)
                 in case updateState (Some Disconnected) None c2 of
                      (Throws e, c3) \<Rightarrow> (Throws e, c3)
                    | (Returns u, c3) \<Rightarrow> (Returns (), setTimeout IgnoreCloseTimer c3))))"

section \<open>Joining and leaving a channel\<close>

definition get_callback :: "callback_prop \<Rightarrow> BanchoChannel \<Rightarrow> callback option" where
  "get_callback callbackProp ch =
     (case callbackProp of
        JoinCallbackProp \<Rightarrow> joinCallback ch
      | PartCallbackProp \<Rightarrow> partCallback ch)"

definition set_callback :: "callback_prop \<Rightarrow> callback option \<Rightarrow> BanchoChannel \<Rightarrow> BanchoChannel" where
  "set_callback callbackProp v ch =
     (case callbackProp of
        JoinCallbackProp \<Rightarrow> ch\<lparr>joinCallback := v\<rparr>
      | PartCallbackProp \<Rightarrow> ch\<lparr>partCallback := v\<rparr>)"

text \<open>
  \<open>_joinOrPart(action, callbackProp)\<close> on the channel at address \<open>this\<close>, whose
  \<open>banchojs\<close> is the client. An error thrown inside the promise's executor rejects the
  promise, and the assignment to the callback property after it is not reached. An address
  that holds no channel is not a receiver the method can have.
\<close>

definition joinOrPart ::
  "jsstring \<Rightarrow> callback_prop \<Rightarrow> nat \<Rightarrow> BanchoClient \<Rightarrow> jsval completion \<times> BanchoClient" where
  "joinOrPart action callbackProp this c =
     (if action \<noteq> js ''JOIN'' \<and> action \<noteq> js ''PART''
      then (Throws (Error ''wrong action dumbass''), c)
      else (case at_index (channelObjs c) this of
              None \<Rightarrow> (Throws (TypeError ''not a channel''), c)
            | Some ch \<Rightarrow>
                (case get_callback callbackProp ch of
                   Some f \<Rightarrow> (Returns (FunctionRef f), c)
                 | None \<Rightarrow>
                     (let p = length (promises c)
                      in case send (action @ js '' '' @ name ch) True c of
                           (Throws e, c1) \<Rightarrow>
                             (Returns (PromiseRef p),
                              c1\<lparr>promises := promises c1 @ [Rejected e]\<rparr>)
                         | (Returns u, c1) \<Rightarrow>
                             (Returns (PromiseRef p),
                              c1\<lparr>promises := promises c1 @ [Pending],
                                 channelObjs := (channelObjs c1)
                                   [this := set_callback callbackProp
                                              (Some (Callback p this callbackProp)) ch]\<rparr>)))))"

text \<open>\<open>join()\<close> (named \<open>join_channel\<close> here, beside the array \<open>join\<close>) and \<open>leave()\<close>.\<close>

definition join_channel :: "nat \<Rightarrow> BanchoClient \<Rightarrow> jsval completion \<times> BanchoClient" where
  "join_channel this c = joinOrPart (js ''JOIN'') JoinCallbackProp this c"

definition leave :: "nat \<Rightarrow> BanchoClient \<Rightarrow> jsval completion \<times> BanchoClient" where
  "leave this c = joinOrPart (js ''PART'') PartCallbackProp this c"

text \<open>
  Calling the closure stored by \<open>_joinOrPart\<close> with \<open>err\<close>: it settles its promise and
  clears the property.
\<close>

fun call_callback :: "callback \<Rightarrow> error option \<Rightarrow> BanchoClient \<Rightarrow> BanchoClient" where
  "call_callback (Callback p this callbackProp) err c =
     (let c1 = settle p (case err of None \<Rightarrow> Fulfilled | Some e \<Rightarrow> Rejected e) c
      in c1\<lparr>channelObjs := (channelObjs c1)
              [this := set_callback callbackProp None (channelObjs c1 ! this)]\<rparr>)"


section \<open>Notions used in the statements\<close>




text \<open>
  Strings of code units below 256 (Basic Latin and Latin-1 Supplement, which contain the
  ASCII wire protocol), and what the built-in \<open>toLowerCase\<close> does to one such code unit:
  the letters A-Z and the accented capitals 0xC0-0xDE (without the multiplication sign
  0xD7) move up by 32, everything else stays.
\<close>

definition latin1 :: "jsstring \<Rightarrow> bool" where
  "latin1 s = (\<forall>u \<in> set s. u < 256)"

definition lower_latin1 :: "nat \<Rightarrow> nat" where
  "lower_latin1 u =
     (if (65 \<le> u \<and> u \<le> 90) \<or> (192 \<le> u \<and> u \<le> 222 \<and> u \<noteq> 215) then u + 32 else u)"

text \<open>
  What the statements on names of code units below 256 suppose of the built-in: on such a
  string it lowers unit by unit.
\<close>

definition lowers_latin1 :: "lowering \<Rightarrow> bool" where
  "lowers_latin1 toLowerCase = (\<forall>s. latin1 s \<longrightarrow> toLowerCase s = map lower_latin1 s)"

text \<open>
  Following the specification's words: two names are the same user when, after truncation
  at the first newline and clipping to 28 characters, they differ only by letter case or
  by spaces versus underscores. Letter case is read letter by letter: two code units are
  the same letter when Unicode's simple lowercase mapping sends them to the same unit.
  That mapping is written out for the code units below 256 and for U+0130, capital I with
  dot above, whose simple lowercase is \<open>i\<close>; no statement relates names with other units.
\<close>

definition name_part :: "jsstring \<Rightarrow> jsstring" where
  "name_part a = take 28 (takeWhile (\<lambda>u. u \<noteq> LF) a)"

definition simple_lower :: "nat \<Rightarrow> nat" where
  "simple_lower u = (if u = 0x130 then 0x69 else lower_latin1 u)"

definition fold_name_unit :: "nat \<Rightarrow> nat" where
  "fold_name_unit u = simple_lower (if u = SP then of_char CHR ''_'' else u)"

definition same_name :: "jsstring \<Rightarrow> jsstring \<Rightarrow> bool" where
  "same_name a b = (map fold_name_unit (name_part a) = map fold_name_unit (name_part b))"

text \<open>
  Following the specification's words: the normalized form of a key of the users map,
  lowercase meaning that \<open>toLowerCase\<close> leaves it as it is.
\<close>

definition normalized_key :: "lowering \<Rightarrow> jsstring \<Rightarrow> bool" where
  "normalized_key toLowerCase k =
     (toLowerCase k = k \<and> length k \<le> 28 \<and> SP \<notin> set k \<and> LF \<notin> set k)"

definition users_normalized :: "lowering \<Rightarrow> BanchoClient \<Rightarrow> bool" where
  "users_normalized toLowerCase c = (\<forall>k \<in> dom (users c). normalized_key toLowerCase k)"

text \<open>
  What holds of every key whatever the name: it is the \<open>toLowerCase\<close> of a name that was
  cut to at most 28 code units and holds no space and no newline.
\<close>

definition lowered_clipped :: "lowering \<Rightarrow> jsstring \<Rightarrow> bool" where
  "lowered_clipped toLowerCase k =
     (\<exists>t. k = toLowerCase t \<and> length t \<le> 28 \<and> SP \<notin> set t \<and> LF \<notin> set t)"

definition users_clipped :: "lowering \<Rightarrow> BanchoClient \<Rightarrow> bool" where
  "users_clipped toLowerCase c = (\<forall>k \<in> dom (users c). lowered_clipped toLowerCase k)"

text \<open>A run of \<open>getUser\<close> calls, keeping the client only.\<close>

fun getUser_seq :: "lowering \<Rightarrow> jsstring list \<Rightarrow> BanchoClient \<Rightarrow> BanchoClient" where
  "getUser_seq toLowerCase [] c = c"
| "getUser_seq toLowerCase (n # ns) c = getUser_seq toLowerCase ns (snd (getUser toLowerCase n c))"

section \<open>Values of the built-ins to evaluate with\<close>

text \<open>
  \<open>toLowerCase_known\<close> is the built-in \<open>toLowerCase\<close> on strings made of code units
  below 256 and of U+0130, which it lowers to \<open>i\<close> followed by the combining dot U+0307.
  It leaves every other code unit as it is and is not the built-in on strings holding
  such units; it is evaluated on none.
\<close>

definition toLowerCase_known :: lowering where
  "toLowerCase_known s =
     concat (map (\<lambda>u. if u = 0x130 then [0x69, 0x307] else [lower_latin1 u]) s)"





section \<open>Clients to evaluate on\<close>

text \<open>The empty command table.\<close>

definition no_handlers :: registry where
  "no_handlers = Map.empty"

text \<open>
  The client \<open>new BanchoClient("u", "p")\<close> builds, and that client after \<open>connect()\<close>
  and the transition to \<open>Connected\<close> that the welcome reply causes.
\<close>

definition client_fresh :: BanchoClient where
  "client_fresh =
     \<lparr>username = js ''u'', password = js ''p'', host = js ''irc.ppy.sh'', port = 6667,
      client = None, connectState = Disconnected, reconnect = True,
      reconnectTimeout = False, connectCallback = None, osuApi = None,
      users = Map.empty, channels = Map.empty, ignoreClose = False,
      userObjs = [], channelObjs = [], promises = [], socketCount = 0,
      transport = [], emitted = [], timers = []\<rparr>"

definition client_online :: BanchoClient where
  "client_online = snd (updateState (Some Connected) None (snd (connect client_fresh)))"

text \<open>
  The connected client after \<open>getChannel("#osu")\<close>, and after \<open>join()\<close> on that channel
  with no answer from the server yet.
\<close>

definition client_with_channel :: BanchoClient where
  "client_with_channel = snd (getChannel (js ''#osu'') client_online)"

definition client_joining :: BanchoClient where
  "client_joining = snd (join_channel 0 client_with_channel)"


section \<open>The example clients\<close>

lemma client_fresh_constructed:
  "new_BanchoClient (Some (js ''u'')) (Some (js ''p'')) None None None = Inr client_fresh"
  by (simp add: new_BanchoClient_def client_fresh_def truthy_def js_def)

lemma client_online_eq:
  "client_online =
     client_fresh\<lparr>client := Some 0, connectState := Connected, connectCallback := Some 0,
       promises := [Pending], socketCount := 1,
       transport := [(0, SocketCreated), (0, SocketConnect 6667 (js ''irc.ppy.sh''))],
       emitted := [Ev_state Connecting None, Ev_connected, Ev_state Connected None]\<rparr>"
  by (simp add: client_online_def client_fresh_def connect_def updateState_def emit_def
      isConnected_def isDisconnected_def initSocket_def client_connect_def client_op_def)

section \<open>Connection state\<close>

text \<open>
  C5: for every state \<open>s\<close> and error \<open>e\<close>, \<open>updateState(s, e)\<close> with \<open>s\<close> equal to the
  current state returns with the client untouched, so nothing is emitted; with \<open>s\<close> another
  of the four states, the state becomes \<open>s\<close> and the events emitted are \<open>connected\<close> when
  \<open>s\<close> is \<open>Connected\<close>, \<open>disconnected\<close> with \<open>e\<close> when \<open>s\<close> is \<open>Disconnected\<close>, and then
  the \<open>state\<close> notification carrying \<open>s\<close> and \<open>e\<close>.
\<close>

theorem updateState_same_or_new:
  "(s = connectState c \<longrightarrow> updateState (Some s) e c = (Returns (), c)) \<and>
   (s \<noteq> connectState c \<longrightarrow>
      updateState (Some s) e c =
        (Returns (),
         c\<lparr>connectState := s,
           emitted := emitted c
             @ (if s = Connected then [Ev_connected] else [])
             @ (if s = Disconnected then [Ev_disconnected e] else [])
             @ [Ev_state s e]\<rparr>))"
  by (auto simp: updateState_def emit_def isConnected_def isDisconnected_def)

theorem updateState_same_or_new_witness:
  "Disconnected = connectState client_fresh \<and> Connecting \<noteq> connectState client_fresh \<and>
   updateState (Some Disconnected) None client_fresh = (Returns (), client_fresh) \<and>
   updateState (Some Connecting) None client_fresh =
     (Returns (),
      client_fresh\<lparr>connectState := Connecting, emitted := [Ev_state Connecting None]\<rparr>)"
  using updateState_same_or_new [of Disconnected client_fresh None]
    updateState_same_or_new [of Connecting client_fresh None]
  by (simp add: client_fresh_def)

text \<open>
  C6: in state \<open>Disconnected\<close>, \<open>send\<close> with \<open>throwIfDisconnected\<close> true throws the error
  \<open>Currently disconnected!\<close> and leaves the whole client, the socket log included, as it
  was.
\<close>

theorem send_disconnected_throws:
  "connectState c = Disconnected \<Longrightarrow>
   send data True c = (Throws (Error ''Currently disconnected!''), c)"
  by (simp add: send_def)

theorem send_disconnected_throws_witness:
  "connectState client_fresh = Disconnected \<and>
   send (js ''PRIVMSG #osu :hi'') True client_fresh
     = (Throws (Error ''Currently disconnected!''), client_fresh)"
  using send_disconnected_throws [of client_fresh "js ''PRIVMSG #osu :hi''"]
  by (simp add: client_fresh_def)

text \<open>
  C7: \<open>connect()\<close> in state \<open>Connecting\<close> or \<open>Connected\<close> returns a promise that is
  already rejected with the error \<open>Already connected/connecting\<close>; nothing else of the
  client changes: no socket is created or opened and the connection state stays.
\<close>

theorem connect_twice_rejects:
  "connectState c = Connecting \<or> connectState c = Connected \<Longrightarrow>
   connect c =
     (PromiseRef (length (promises c)),
      c\<lparr>promises := promises c @ [Rejected (Error ''Already connected/connecting'')]\<rparr>)"
  by (auto simp: connect_def Let_def)

theorem connect_twice_rejects_witness:
  "(connectState client_online = Connecting \<or> connectState client_online = Connected) \<and>
   connect client_online =
     (PromiseRef 1,
      client_online\<lparr>promises := [Pending, Rejected (Error ''Already connected/connecting'')]\<rparr>)"
  using connect_twice_rejects [of client_online]
  by (simp add: client_online_eq client_fresh_def)

section \<open>Construction\<close>

text \<open>
  C9: constructing a client with a missing or empty username, or a missing or empty
  password, throws; the result is the error and no client.
\<close>

theorem constructor_requires_credentials:
  "username0 = None \<or> username0 = Some [] \<or> password0 = None \<or> password0 = Some [] \<Longrightarrow>
   new_BanchoClient username0 password0 host0 port0 apiKey =
     Inl (Error ''You gotta gimme an username and a password to connect to Bancho dumbass'')"
  by (auto simp: new_BanchoClient_def truthy_def)

theorem constructor_requires_credentials_witness:
  "(Some (js ''u'') = None \<or> Some (js ''u'') = Some []
      \<or> (None :: jsstring option) = None \<or> None = Some [])
   \<and> new_BanchoClient (Some (js ''u'')) None None None None =
     Inl (Error ''You gotta gimme an username and a password to connect to Bancho dumbass'')"
  using constructor_requires_credentials [of "Some (js ''u'')" None None None None]
  by simp


section \<open>Facts about the string primitives\<close>

lemma indexOf_ge: "- 1 \<le> indexOf s sub"
  by (induction s) (auto simp: Let_def)

lemma indexOf_zero_iff: "indexOf s sub = 0 \<longleftrightarrow> prefix sub s"
proof (cases s)
  case Nil
  then show ?thesis by auto
next
  case (Cons c cs)
  have "- 1 \<le> indexOf cs sub" by (rule indexOf_ge)
  then show ?thesis using Cons by (auto simp: Let_def)
qed

lemma indexOf_char_iff: "indexOf s [ch] = - 1 \<longleftrightarrow> ch \<notin> set s"
proof (induction s)
  case Nil
  then show ?case by simp
next
  case (Cons c cs)
  have "- 1 \<le> indexOf cs [ch]" by (rule indexOf_ge)
  with Cons show ?case by (auto simp: Let_def)
qed

lemma split_no_sep: "sep \<notin> set t \<Longrightarrow> split t sep = [t]"
  by (induction t) auto

lemma split_append_sep: "sep \<notin> set t \<Longrightarrow> split (t @ sep # rest) sep = t # split rest sep"
  by (induction t) auto

lemma split_not_Nil: "split s sep \<noteq> []"
  by (induction s) (auto split: list.splits)

lemma hd_split: "(case split s sep of [] \<Rightarrow> [] | t # ts \<Rightarrow> t) = takeWhile (\<lambda>ch. ch \<noteq> sep) s"
  by (induction s) (auto split: list.splits)

lemma join_split: "join (split s sep) [sep] = s"
proof (induction s)
  case Nil
  then show ?case by simp
next
  case (Cons c cs)
  obtain t ts where sp: "split cs sep = t # ts"
    using split_not_Nil [of cs sep] by (cases "split cs sep") auto
  with Cons show ?case by (cases ts) auto
qed

section \<open>Channels of the identity cache\<close>

lemma hash_not_inherited: "js ''#'' @ rest \<notin> set objectPrototypeProps"
  by (simp add: objectPrototypeProps_def js_def)

text \<open>
  C1, as amended: for every channel name that starts with \<open>#\<close> and contains neither a
  comma nor the control character 0x07, \<open>getChannel\<close> returns a channel object and has it
  in the cache, so that a second call with the same name returns the same object and
  changes nothing; for a name that does not start with \<open>#\<close>, \<open>getChannel\<close> throws
  \<open>Invalid channel name!\<close> and the client, its cache included, is as before.
\<close>

theorem getChannel_valid_or_throws:
  "(of_char CHR '','' \<notin> set rest \<and> BEL \<notin> set rest \<longrightarrow>
      (\<exists>r c'. getChannel (js ''#'' @ rest) c = (Returns (ChannelRef r), c')
           \<and> channels c' (js ''#'' @ rest) = Some r
           \<and> getChannel (js ''#'' @ rest) c' = (Returns (ChannelRef r), c')))
   \<and> (\<not> prefix (js ''#'') channelName \<longrightarrow>
        getChannel channelName c = (Throws (Error ''Invalid channel name!''), c))"
proof (intro conjI impI)
  assume ok: "of_char CHR '','' \<notin> set rest \<and> BEL \<notin> set rest"
  let ?n = "js ''#'' @ rest"
  have comma: "indexOf ?n (js '','') = - 1"
    using ok indexOf_char_iff [of ?n "of_char CHR '',''"] by (simp add: js_def)
  have bell: "indexOf ?n [BEL] = - 1"
    using ok indexOf_char_iff [of ?n BEL] by (simp add: js_def BEL_def)
  have hash: "indexOf ?n (js ''#'') = 0"
    by (simp add: indexOf_zero_iff)
  have guard: "\<And>d. getChannel ?n d =
      (case prop_get (channels d) ChannelRef ?n of
         Some v \<Rightarrow> (Returns v, d)
       | None \<Rightarrow>
           (let r = length (channelObjs d);
                mp = (indexOf ?n (js ''#mp_'') = 0 \<and> osuApi d \<noteq> None)
            in (Returns (ChannelRef r),
                d\<lparr>channelObjs := channelObjs d @ [new_BanchoChannel mp ?n],
                  channels := (channels d)(?n \<mapsto> r)\<rparr>)))"
    using comma bell hash by (simp add: getChannel_def)
  show "\<exists>r c'. getChannel ?n c = (Returns (ChannelRef r), c')
           \<and> channels c' ?n = Some r
           \<and> getChannel ?n c' = (Returns (ChannelRef r), c')"
  proof (cases "channels c ?n")
    case None
    then show ?thesis
      using hash_not_inherited [of rest]
      by (simp add: guard prop_get_def Let_def)
  next
    case (Some r)
    then show ?thesis
      by (simp add: guard prop_get_def)
  qed
next
  assume "\<not> prefix (js ''#'') channelName"
  then have "indexOf channelName (js ''#'') \<noteq> 0"
    by (simp add: indexOf_zero_iff)
  then show "getChannel channelName c = (Throws (Error ''Invalid channel name!''), c)"
    by (simp add: getChannel_def)
qed

theorem getChannel_valid_or_throws_witness:
  "(of_char CHR '','' \<notin> set (js ''osu'') \<and> BEL \<notin> set (js ''osu''))
   \<and> \<not> prefix (js ''#'') (js ''osu'') \<and>
   (\<exists>r c'. getChannel (js ''#'' @ js ''osu'') client_fresh = (Returns (ChannelRef r), c')
        \<and> channels c' (js ''#'' @ js ''osu'') = Some r
        \<and> getChannel (js ''#'' @ js ''osu'') c' = (Returns (ChannelRef r), c')) \<and>
   fst (getChannel (js ''#osu'') client_fresh) = Returns (ChannelRef 0) \<and>
   getChannel (js ''osu'') client_fresh
     = (Throws (Error ''Invalid channel name!''), client_fresh)"
proof -
  have a: "of_char CHR '','' \<notin> set (js ''osu'') \<and> BEL \<notin> set (js ''osu'')"
    by (simp add: BEL_def js_def)
  have b: "\<not> prefix (js ''#'') (js ''osu'')"
    by (simp add: js_def)
  have c: "fst (getChannel (js ''#osu'') client_fresh) = Returns (ChannelRef 0)"
    by (simp add: getChannel_def BEL_def prop_get_def objectPrototypeProps_def client_fresh_def
        js_def)
  show ?thesis
    using getChannel_valid_or_throws [of "js ''osu''" client_fresh "js ''osu''"] a b c
    by simp
qed

text \<open>
  The claim as first stated fails: a name that starts with \<open>#\<close> and has no comma, but
  contains the character 0x07, is refused.
\<close>

theorem getChannel_bell_counterexample:
  "prefix (js ''#'') (js ''#a'' @ [0x07]) \<and>
   of_char CHR '','' \<notin> set (js ''#a'' @ [0x07]) \<and>
   getChannel (js ''#a'' @ [0x07]) client_fresh
     = (Throws (Error ''Invalid channel name!''), client_fresh)"
  by (simp add: getChannel_def BEL_def js_def)

section \<open>The keep-alive reply\<close>

lemma ping_splits:
  assumes "command = js ''PING'' \<or> prefix (js ''PING '') command"
  shows "at_index (split command SP) 0 = Some (js ''PING'')
    \<and> join (tl (split command SP)) [SP] = drop 5 command
    \<and> (case at_index (split command SP) 1 of None \<Rightarrow> [] | Some v \<Rightarrow> v)
        = takeWhile (\<lambda>u. u \<noteq> SP) (drop 5 command)"
  using assms
proof
  assume "command = js ''PING''"
  then show ?thesis by (simp add: at_index_def js_def SP_def)
next
  assume "prefix (js ''PING '') command"
  then obtain rest where c: "command = js ''PING'' @ SP # rest"
    by (auto simp: prefix_def js_def SP_def)
  have s: "split command SP = js ''PING'' # split rest SP"
    unfolding c by (rule split_append_sep) (simp add: js_def SP_def)
  obtain t ts where sp: "split rest SP = t # ts"
    using split_not_Nil [of rest SP] by (cases "split rest SP") auto
  have "t = takeWhile (\<lambda>u. u \<noteq> SP) rest"
    using hd_split [of rest SP] sp by simp
  moreover have "drop 5 command = rest"
    unfolding c by (simp add: js_def)
  ultimately show ?thesis
    using join_split [of rest SP] sp
    by (simp add: s at_index_def)
qed

text \<open>
  C3, as amended: for every decoded line whose first space-separated token is \<open>PING\<close> and
  whose second token is none of the ignored reply codes, while the connection state is
  \<open>Connected\<close> or \<open>Connecting\<close> and a socket is held, the client writes exactly one line,
  \<open>PONG\<close>, a space and the remainder of the line, closed by CR LF; whatever the command
  table holds, no handler is consulted and no event is emitted. The ignored-code filter
  runs before the \<open>PING\<close> test.
\<close>

theorem ping_answered:
  assumes first: "command = js ''PING'' \<or> prefix (js ''PING '') command"
    and second: "takeWhile (\<lambda>u. u \<noteq> SP) (drop 5 command) \<notin> set ignoredSplits"
    and state: "connectState c = Connected \<or> connectState c = Connecting"
    and sock: "client c = Some k"
  shows "handleIrcCommand IrcCommands command c =
     (Returns (),
      c\<lparr>transport := transport c
          @ [(k, SocketWrite (js ''PONG '' @ drop 5 command @ [CR, LF]))]\<rparr>)"
proof -
  note p = ping_splits [OF first]
  have "\<not> (case at_index (split command SP) 1 of None \<Rightarrow> False
            | Some v \<Rightarrow> v \<in> set ignoredSplits)"
    using p second by (auto split: option.splits)
  then have "handleIrcCommand IrcCommands command c
      = send (js ''PONG '' @ drop 5 command) True c"
    using p by (simp add: handleIrcCommand_def Let_def)
  also have "\<dots> = (Returns (),
      c\<lparr>transport := transport c
          @ [(k, SocketWrite (js ''PONG '' @ drop 5 command @ [CR, LF]))]\<rparr>)"
    using state sock by (auto simp: send_def client_write_def client_op_def)
  finally show ?thesis .
qed

theorem ping_answered_witness:
  "(js ''PING :abc123'' = js ''PING'' \<or> prefix (js ''PING '') (js ''PING :abc123'')) \<and>
   takeWhile (\<lambda>u. u \<noteq> SP) (drop 5 (js ''PING :abc123'')) \<notin> set ignoredSplits \<and>
   (connectState client_online = Connected \<or> connectState client_online = Connecting) \<and>
   client client_online = Some 0 \<and>
   handleIrcCommand no_handlers (js ''PING :abc123'') client_online =
     (Returns (),
      client_online\<lparr>transport := transport client_online
         @ [(0, SocketWrite (js ''PONG :abc123'' @ [CR, LF]))]\<rparr>)"
proof -
  have a: "js ''PING :abc123'' = js ''PING'' \<or> prefix (js ''PING '') (js ''PING :abc123'')"
    by (simp add: js_def)
  have b: "takeWhile (\<lambda>u. u \<noteq> SP) (drop 5 (js ''PING :abc123'')) \<notin> set ignoredSplits"
    by (simp add: ignoredSplits_def js_def SP_def)
  have c: "connectState client_online = Connected \<or> connectState client_online = Connecting"
    by (simp add: client_online_eq)
  have d: "client client_online = Some 0"
    by (simp add: client_online_eq)
  show ?thesis
    using ping_answered [OF a b c d, of no_handlers] a b c d by (simp add: js_def)
qed

text \<open>
  The claim as first stated fails: the ignored-code filter comes first, so a \<open>PING\<close> line
  whose second token is \<open>QUIT\<close> gets no reply even while connected.
\<close>

theorem ping_filtered_counterexample:
  "at_index (split (js ''PING QUIT'') SP) 0 = Some (js ''PING'') \<and>
   connectState client_online = Connected \<and>
   handleIrcCommand no_handlers (js ''PING QUIT'') client_online = (Returns (), client_online)"
  by (simp add: handleIrcCommand_def at_index_def ignoredSplits_def client_online_eq js_def
      SP_def)

section \<open>Users of the identity cache\<close>

lemma lower_latin1_idem: "lower_latin1 (lower_latin1 u) = lower_latin1 u"
  by (auto simp: lower_latin1_def)

lemma lower_latin1_SP: "lower_latin1 u = SP \<longleftrightarrow> u = SP"
  by (auto simp: lower_latin1_def SP_def)

lemma lower_latin1_LF: "lower_latin1 u = LF \<longleftrightarrow> u = LF"
  by (auto simp: lower_latin1_def LF_def)

lemma lower_latin1_bound: "u < 256 \<Longrightarrow> lower_latin1 u < 256"
  by (auto simp: lower_latin1_def)

lemma fold_name_unit_latin1:
  "u < 256 \<Longrightarrow> fold_name_unit u = lower_latin1 (if u = SP then of_char CHR ''_'' else u)"
  by (simp add: fold_name_unit_def simple_lower_def SP_def)

lemma replace_space:
  "replace_all s SP (js ''_'') = map (\<lambda>u. if u = SP then of_char CHR ''_'' else u) s"
  by (induction s) (auto simp: replace_all_def js_def)

lemma clip_username_eq:
  "clip_username a = map (\<lambda>u. if u = SP then of_char CHR ''_'' else u) (name_part a)"
proof -
  have "(\<lambda>u. u \<noteq> LF) \<circ> (\<lambda>u. if u = SP then of_char CHR ''_'' else u) = (\<lambda>u. u \<noteq> LF)"
    by (auto simp: LF_def SP_def fun_eq_iff)
  then show ?thesis
    by (simp add: clip_username_def name_part_def hd_split replace_space substring_to_def
        takeWhile_map take_map)
qed

lemma name_part_clean: "length (name_part a) \<le> 28 \<and> LF \<notin> set (name_part a)"
proof -
  have "LF \<notin> set (take 28 (takeWhile (\<lambda>u. u \<noteq> LF) a))"
    by (metis (mono_tags, lifting) in_set_takeD set_takeWhileD)
  then show ?thesis by (simp add: name_part_def)
qed

lemma clip_username_clean:
  "length (clip_username a) \<le> 28 \<and> SP \<notin> set (clip_username a) \<and> LF \<notin> set (clip_username a)"
  using name_part_clean [of a] by (auto simp: clip_username_eq SP_def LF_def)

lemma clip_username_latin1: "latin1 (name_part a) \<Longrightarrow> latin1 (clip_username a)"
  by (auto simp: latin1_def clip_username_eq)

lemma key_latin1:
  assumes "lowers_latin1 toLowerCase" and "latin1 (name_part a)"
  shows "toLowerCase (clip_username a) = map fold_name_unit (name_part a)"
proof -
  have "toLowerCase (clip_username a) = map lower_latin1 (clip_username a)"
    using assms clip_username_latin1 [of a] by (simp add: lowers_latin1_def)
  also have "\<dots> = map fold_name_unit (name_part a)"
    using assms(2) by (simp add: clip_username_eq latin1_def fold_name_unit_latin1)
  finally show ?thesis .
qed

lemma key_normalized:
  assumes l: "lowers_latin1 toLowerCase" and a: "latin1 (name_part a)"
  shows "normalized_key toLowerCase (toLowerCase (clip_username a))"
proof -
  let ?k = "map lower_latin1 (clip_username a)"
  have k: "toLowerCase (clip_username a) = ?k"
    using l clip_username_latin1 [OF a] by (simp add: lowers_latin1_def)
  have "latin1 ?k"
    using clip_username_latin1 [OF a] by (auto simp: latin1_def lower_latin1_bound)
  then have "toLowerCase ?k = map lower_latin1 ?k"
    using l by (simp add: lowers_latin1_def)
  then have "toLowerCase ?k = ?k"
    by (simp add: lower_latin1_idem)
  moreover have "length ?k \<le> 28"
    using clip_username_clean [of a] by simp
  moreover have "SP \<notin> set ?k"
  proof
    assume "SP \<in> set ?k"
    then obtain x where "x \<in> set (clip_username a)" "lower_latin1 x = SP" by auto
    then show False
      using clip_username_clean [of a] by (simp add: lower_latin1_SP)
  qed
  moreover have "LF \<notin> set ?k"
  proof
    assume "LF \<in> set ?k"
    then obtain x where "x \<in> set (clip_username a)" "lower_latin1 x = LF" by auto
    then show False
      using clip_username_clean [of a] by (simp add: lower_latin1_LF)
  qed
  ultimately show ?thesis
    unfolding k normalized_key_def by blast
qed

lemma key_clipped: "lowered_clipped toLowerCase (toLowerCase (clip_username a))"
  unfolding lowered_clipped_def using clip_username_clean [of a] by blast

lemma toLowerCase_known_latin1: "lowers_latin1 toLowerCase_known"
proof -
  have "latin1 s \<Longrightarrow> toLowerCase_known s = map lower_latin1 s" for s
    by (induction s) (auto simp: toLowerCase_known_def latin1_def)
  then show ?thesis by (simp add: lowers_latin1_def)
qed

lemma getUser_lookup:
  "prop_get (users (snd (getUser toLowerCase a c))) UserRef (toLowerCase (clip_username a))
     = Some (fst (getUser toLowerCase a c))"
  by (auto simp: getUser_def Let_def prop_get_def split: option.splits)

lemma getUser_keeps:
  "prop_get (users c) UserRef k = Some v \<Longrightarrow>
   prop_get (users (snd (getUser toLowerCase n c))) UserRef k = Some v"
  by (auto simp: getUser_def Let_def prop_get_def split: option.splits if_splits)

lemma getUser_seq_keeps:
  "prop_get (users c) UserRef k = Some v \<Longrightarrow>
   prop_get (users (getUser_seq toLowerCase ns c)) UserRef k = Some v"
  by (induction ns arbitrary: c) (auto intro: getUser_keeps)

lemma getUser_cached:
  "prop_get (users c) UserRef (toLowerCase (clip_username b)) = Some v \<Longrightarrow>
   getUser toLowerCase b c = (v, c)"
  by (simp add: getUser_def)

lemma getUser_same_key:
  assumes "toLowerCase (clip_username a) = toLowerCase (clip_username b)"
  shows "getUser toLowerCase b (getUser_seq toLowerCase ns (snd (getUser toLowerCase a c)))
           = (fst (getUser toLowerCase a c),
              getUser_seq toLowerCase ns (snd (getUser toLowerCase a c)))"
proof -
  have "prop_get (users (getUser_seq toLowerCase ns (snd (getUser toLowerCase a c)))) UserRef
          (toLowerCase (clip_username b)) = Some (fst (getUser toLowerCase a c))"
    using assms getUser_lookup [of toLowerCase a c] by (simp add: getUser_seq_keeps)
  then show ?thesis by (rule getUser_cached)
qed

text \<open>
  C4, as amended: \<open>getUser\<close> never returns two objects for one key: two names whose
  clipped forms have the same \<open>toLowerCase\<close> get the same object, whatever \<open>getUser\<close>
  calls come in between, and the later call changes nothing. For every pair of usernames
  of code units below 256 that differ only by letter case or by spaces versus underscores,
  after truncation at the first newline and clipping to 28 code units, the keys are the
  same, hence the object is.
\<close>

theorem getUser_same_instance:
  "(toLowerCase (clip_username a) = toLowerCase (clip_username b) \<longrightarrow>
      getUser toLowerCase b (getUser_seq toLowerCase ns (snd (getUser toLowerCase a c)))
        = (fst (getUser toLowerCase a c),
           getUser_seq toLowerCase ns (snd (getUser toLowerCase a c))))
   \<and> (lowers_latin1 toLowerCase \<and> latin1 (name_part a) \<and> latin1 (name_part b)
        \<and> same_name a b \<longrightarrow>
      getUser toLowerCase b (getUser_seq toLowerCase ns (snd (getUser toLowerCase a c)))
        = (fst (getUser toLowerCase a c),
           getUser_seq toLowerCase ns (snd (getUser toLowerCase a c))))"
proof (intro conjI impI)
  assume "toLowerCase (clip_username a) = toLowerCase (clip_username b)"
  then show "getUser toLowerCase b (getUser_seq toLowerCase ns (snd (getUser toLowerCase a c)))
        = (fst (getUser toLowerCase a c),
           getUser_seq toLowerCase ns (snd (getUser toLowerCase a c)))"
    by (rule getUser_same_key)
next
  assume h: "lowers_latin1 toLowerCase \<and> latin1 (name_part a) \<and> latin1 (name_part b)
        \<and> same_name a b"
  then have "toLowerCase (clip_username a) = toLowerCase (clip_username b)"
    by (simp add: key_latin1 same_name_def)
  then show "getUser toLowerCase b (getUser_seq toLowerCase ns (snd (getUser toLowerCase a c)))
        = (fst (getUser toLowerCase a c),
           getUser_seq toLowerCase ns (snd (getUser toLowerCase a c)))"
    by (rule getUser_same_key)
qed

theorem getUser_same_instance_witness:
  "lowers_latin1 toLowerCase_known \<and>
   latin1 (name_part (js ''Hello World'')) \<and> latin1 (name_part (js ''hello_world'')) \<and>
   same_name (js ''Hello World'') (js ''hello_world'') \<and>
   toLowerCase_known (clip_username (js ''Hello World''))
     = toLowerCase_known (clip_username (js ''hello_world'')) \<and>
   fst (getUser toLowerCase_known (js ''Hello World'') client_fresh) = UserRef 0 \<and>
   fst (getUser toLowerCase_known (js ''hello_world'')
          (getUser_seq toLowerCase_known [js ''peppy'']
             (snd (getUser toLowerCase_known (js ''Hello World'') client_fresh))))
     = UserRef 0"
proof -
  have l: "lowers_latin1 toLowerCase_known"
    by (rule toLowerCase_known_latin1)
  have a: "latin1 (name_part (js ''Hello World''))"
    by (simp add: latin1_def name_part_def js_def LF_def)
  have b: "latin1 (name_part (js ''hello_world''))"
    by (simp add: latin1_def name_part_def js_def LF_def)
  have s: "same_name (js ''Hello World'') (js ''hello_world'')"
    by (simp add: same_name_def name_part_def fold_name_unit_def simple_lower_def
        lower_latin1_def js_def LF_def SP_def)
  have k: "toLowerCase_known (clip_username (js ''Hello World''))
     = toLowerCase_known (clip_username (js ''hello_world''))"
    using l a b s by (simp add: key_latin1 same_name_def)
  have r: "fst (getUser toLowerCase_known (js ''Hello World'') client_fresh) = UserRef 0"
    by code_simp
  show ?thesis
    using getUser_same_instance
      [of toLowerCase_known "js ''Hello World''" "js ''hello_world''" "[js ''peppy'']"
        client_fresh]
      l a b s k r
    by simp
qed

text \<open>
  The claim as first stated fails beyond those code units: capital I with dot above,
  U+0130, and \<open>i\<close> differ only by letter case, but \<open>toLowerCase\<close> turns the first into
  \<open>i\<close> followed by U+0307, so the two names have two keys and get two objects.
\<close>

theorem getUser_dotted_I_counterexample:
  "same_name [0x130] (js ''i'') \<and>
   toLowerCase_known (clip_username [0x130]) = [0x69, 0x307] \<and>
   toLowerCase_known (clip_username (js ''i'')) = [0x69] \<and>
   fst (getUser toLowerCase_known [0x130] client_fresh) = UserRef 0 \<and>
   fst (getUser toLowerCase_known (js ''i'')
          (snd (getUser toLowerCase_known [0x130] client_fresh))) = UserRef 1"
  by code_simp

lemma users_clipped_getUser:
  "users_clipped toLowerCase c \<Longrightarrow> users_clipped toLowerCase (snd (getUser toLowerCase n c))"
  using key_clipped [of toLowerCase n]
  by (auto simp: users_clipped_def getUser_def Let_def split: option.splits if_splits)

lemma users_normalized_getUser:
  "lowers_latin1 toLowerCase \<Longrightarrow> latin1 (name_part n) \<Longrightarrow> users_normalized toLowerCase c \<Longrightarrow>
   users_normalized toLowerCase (snd (getUser toLowerCase n c))"
  using key_normalized [of toLowerCase n]
  by (auto simp: users_normalized_def getUser_def Let_def split: option.splits if_splits)

lemma users_empty_new:
  "new_BanchoClient u p h po k = Inr c0 \<Longrightarrow>
   users_clipped toLowerCase c0 \<and> users_normalized toLowerCase c0"
  by (auto simp: new_BanchoClient_def users_clipped_def users_normalized_def split: if_splits)

lemma users_untouched_state:
  "users (snd (send d t c)) = users c"
  "users (snd (updateState s e c)) = users c"
  by (auto simp: send_def client_write_def client_op_def updateState_def emit_def Let_def
      split: option.splits)

lemma users_untouched_close:
  "users (snd (onClose er c)) = users c"
  by (auto simp: onClose_def updateState_def emit_def Let_def setTimeout_def clearTimeout_def
      split: option.splits prod.splits completion.splits)

lemma users_untouched_connect:
  "users (snd (connect c)) = users c"
  by (auto simp: connect_def updateState_def emit_def Let_def settle_def initSocket_def
      client_connect_def client_op_def
      split: option.splits prod.splits completion.splits)

lemma users_untouched_disconnect:
  "users (snd (disconnect c)) = users c"
  by (auto simp: disconnect_def updateState_def emit_def Let_def setTimeout_def clearTimeout_def
      send_def client_write_def client_destroy_def client_op_def
      split: option.splits prod.splits completion.splits if_splits)

lemma users_untouched_channel:
  "users (snd (getChannel n c)) = users c"
  "users (snd (joinOrPart a pr t c)) = users c"
  by (auto simp: getChannel_def joinOrPart_def Let_def send_def client_write_def client_op_def
      split: option.splits prod.splits completion.splits)

text \<open>
  C10, as amended: every key of the users map is the \<open>toLowerCase\<close> of a name that was cut
  to at most 28 code units and holds no space and no newline: the map of a newly
  constructed client is empty, and every \<open>getUser\<close> call keeps it so. For names of code
  units below 256 the key itself is in normalized form (lowercase, at most 28 code units,
  no space, no newline), and \<open>getUser\<close> calls with such names keep all keys normalized.
  \<open>getUser\<close> is the only method that writes to the map: \<open>send\<close>, \<open>updateState\<close>,
  \<open>onClose\<close>, \<open>connect\<close>, \<open>disconnect\<close>, \<open>getChannel\<close> and \<open>_joinOrPart\<close> leave it as
  it is.
\<close>

theorem users_keys_normalized:
  "(new_BanchoClient u p h po k = Inr c0 \<longrightarrow>
      users_clipped toLowerCase c0 \<and> users_normalized toLowerCase c0) \<and>
   (users_clipped toLowerCase c \<longrightarrow> users_clipped toLowerCase (snd (getUser toLowerCase n c))) \<and>
   (lowers_latin1 toLowerCase \<and> latin1 (name_part n) \<and> users_normalized toLowerCase c \<longrightarrow>
      users_normalized toLowerCase (snd (getUser toLowerCase n c))) \<and>
   users (snd (send d t c)) = users c \<and>
   users (snd (updateState s e c)) = users c \<and>
   users (snd (onClose er c)) = users c \<and>
   users (snd (connect c)) = users c \<and>
   users (snd (disconnect c)) = users c \<and>
   users (snd (getChannel cn c)) = users c \<and>
   users (snd (joinOrPart a pr this c)) = users c"
  by (simp add: users_empty_new users_clipped_getUser users_normalized_getUser
      users_untouched_state users_untouched_close users_untouched_connect
      users_untouched_disconnect users_untouched_channel)

theorem users_keys_normalized_witness:
  "new_BanchoClient (Some (js ''u'')) (Some (js ''p'')) None None None = Inr client_fresh \<and>
   lowers_latin1 toLowerCase_known \<and> latin1 (name_part (js ''Hello World'')) \<and>
   users_clipped toLowerCase_known client_fresh \<and>
   users_normalized toLowerCase_known client_fresh \<and>
   users (snd (getUser toLowerCase_known (js ''Hello World'') client_fresh)) (js ''hello_world'')
     = Some 0 \<and>
   users_clipped toLowerCase_known (snd (getUser toLowerCase_known (js ''Hello World'') client_fresh)) \<and>
   users_normalized toLowerCase_known
     (snd (getUser toLowerCase_known (js ''Hello World'') client_fresh)) \<and>
   normalized_key toLowerCase_known (js ''hello_world'')"
proof -
  let ?c = "snd (getUser toLowerCase_known (js ''Hello World'') client_fresh)"
  have a: "new_BanchoClient (Some (js ''u'')) (Some (js ''p'')) None None None = Inr client_fresh"
    by (rule client_fresh_constructed)
  have l: "lowers_latin1 toLowerCase_known"
    by (rule toLowerCase_known_latin1)
  have n: "latin1 (name_part (js ''Hello World''))"
    by (simp add: latin1_def name_part_def js_def LF_def)
  have b: "users_clipped toLowerCase_known client_fresh
      \<and> users_normalized toLowerCase_known client_fresh"
    using users_keys_normalized
      [of "Some (js ''u'')" "Some (js ''p'')" None None None client_fresh toLowerCase_known] a
    by blast
  have c: "users_clipped toLowerCase_known ?c \<and> users_normalized toLowerCase_known ?c"
    using users_keys_normalized
      [of _ _ _ _ _ _ toLowerCase_known client_fresh "js ''Hello World''"] b l n
    by blast
  have d: "users ?c (js ''hello_world'') = Some 0"
    by code_simp
  have "js ''hello_world'' \<in> dom (users ?c)"
    using d by blast
  with c have "normalized_key toLowerCase_known (js ''hello_world'')"
    unfolding users_normalized_def by blast
  with a l n b c d show ?thesis by blast
qed

text \<open>
  The claim as first stated fails: the name is clipped to 28 code units before
  \<open>toLowerCase\<close>, which lengthens capital I with dot above. The name of 28 such letters
  is stored under a key of 56 code units.
\<close>

theorem users_long_key_counterexample:
  "users (snd (getUser toLowerCase_known (replicate 28 0x130) client_fresh))
       (concat (replicate 28 [0x69, 0x307])) = Some 0 \<and>
   length (concat (replicate 28 [0x69, 0x307 :: nat])) = 56 \<and>
   \<not> normalized_key toLowerCase_known (concat (replicate 28 [0x69, 0x307])) \<and>
   \<not> users_normalized toLowerCase_known
       (snd (getUser toLowerCase_known (replicate 28 0x130) client_fresh))"
proof -
  let ?k = "concat (replicate 28 [0x69, 0x307 :: nat])"
  let ?c = "snd (getUser toLowerCase_known (replicate 28 0x130) client_fresh)"
  have a: "users ?c ?k = Some 0"
    by code_simp
  have b: "length ?k = 56"
    by code_simp
  then have c: "\<not> normalized_key toLowerCase_known ?k"
    by (simp add: normalized_key_def)
  have "?k \<in> dom (users ?c)"
    using a by blast
  with c have "\<not> users_normalized toLowerCase_known ?c"
    unfolding users_normalized_def by blast
  with a b c show ?thesis by blast
qed

section \<open>The framer delivers the lines of the stream\<close>






























section \<open>Joining a channel twice\<close>

lemma client_with_channel_eq:
  "client_with_channel =
     client_online\<lparr>channelObjs := [new_BanchoChannel False (js ''#osu'')],
       channels := Map.empty(js ''#osu'' \<mapsto> 0)\<rparr>"
  by (simp add: client_with_channel_def getChannel_def BEL_def prop_get_def
      objectPrototypeProps_def client_online_eq client_fresh_def js_def)

lemma client_joining_eq:
  "client_joining =
     client_with_channel\<lparr>
       transport := transport client_with_channel @ [(0, SocketWrite (js ''JOIN #osu'' @ [CR, LF]))],
       promises := [Pending, Pending],
       channelObjs := [(new_BanchoChannel False (js ''#osu''))
          \<lparr>joinCallback := Some (Callback 1 0 JoinCallbackProp)\<rparr>]\<rparr>"
  by (simp add: client_joining_def join_channel_def joinOrPart_def at_index_def get_callback_def
      set_callback_def new_BanchoChannel_def send_def client_write_def client_op_def
      client_with_channel_eq client_online_eq client_fresh_def js_def)

lemma joinOrPart_pending:
  "action = js ''JOIN'' \<or> action = js ''PART'' \<Longrightarrow> at_index (channelObjs c) this = Some ch \<Longrightarrow>
   get_callback callbackProp ch = Some f \<Longrightarrow>
   joinOrPart action callbackProp this c = (Returns (FunctionRef f), c)"
  by (auto simp: joinOrPart_def)

text \<open>
  When the server's answer arrives, the stored callback fulfils the first caller's promise
  and clears the property.
\<close>

lemma join_answered:
  "promises (call_callback (Callback 1 0 JoinCallbackProp) None client_joining)
     = [Pending, Fulfilled] \<and>
   map joinCallback (channelObjs (call_callback (Callback 1 0 JoinCallbackProp) None client_joining))
     = [None]"
  by (simp add: client_joining_eq settle_def set_callback_def new_BanchoChannel_def)

text \<open>
  C2 fails on the code: while a join is pending, a second \<open>join()\<close> sends no second
  \<open>JOIN\<close> line and changes nothing, but what it returns is the callback stored in
  \<open>joinCallback\<close>, not the promise the first call returned. Here the connected client
  gets the channel \<open>#osu\<close> and joins it twice before any answer.
\<close>

theorem join_twice_returns_callback:
  "getChannel (js ''#osu'') client_online = (Returns (ChannelRef 0), client_with_channel) \<and>
   join_channel 0 client_with_channel = (Returns (PromiseRef 1), client_joining) \<and>
   promises client_joining ! 1 = Pending \<and>
   join_channel 0 client_joining
     = (Returns (FunctionRef (Callback 1 0 JoinCallbackProp)), client_joining)"
proof -
  have a: "getChannel (js ''#osu'') client_online = (Returns (ChannelRef 0), client_with_channel)"
    unfolding client_with_channel_eq
    by (simp add: getChannel_def BEL_def prop_get_def
      objectPrototypeProps_def client_online_eq client_fresh_def js_def)
  have b: "join_channel 0 client_with_channel = (Returns (PromiseRef 1), client_joining)"
    unfolding client_joining_eq
    by (simp add: join_channel_def joinOrPart_def at_index_def get_callback_def
      set_callback_def new_BanchoChannel_def send_def client_write_def client_op_def
      client_with_channel_eq client_online_eq client_fresh_def js_def)
  have c: "promises client_joining ! 1 = Pending"
    by (simp add: client_joining_eq)
  have d: "join_channel 0 client_joining
     = (Returns (FunctionRef (Callback 1 0 JoinCallbackProp)), client_joining)"
    unfolding join_channel_def
    by (rule joinOrPart_pending [where ch = "(new_BanchoChannel False (js ''#osu''))
          \<lparr>joinCallback := Some (Callback 1 0 JoinCallbackProp)\<rparr>"])
      (simp_all add: client_joining_eq at_index_def get_callback_def)
  from a b c d show ?thesis by blast
qed

theorem join_twice_returns_callback_witness:
  "fst (join_channel 0 client_joining) \<noteq> fst (join_channel 0 client_with_channel) \<and>
   fst (join_channel 0 client_joining) \<noteq> Returns (PromiseRef 1) \<and>
   transport (snd (join_channel 0 client_joining)) = transport client_joining"
  using join_twice_returns_callback by simp


end
